theory Spec2Isabelle
  imports Complex_Main "HOL-Library.Word"
begin

section \<open>JavaScript values\<close>

text \<open>
  A JavaScript string is a sequence of UTF-16 code units.  Recipe names, search terms,
  image references and error messages are all such strings.
\<close>

type_synonym jsstring = "16 word list"

definition ascii :: "string \<Rightarrow> jsstring" where
  "ascii s = map (\<lambda>c. of_nat (of_char c)) s"

text \<open>
  \<open>is_ws\<close> is the set of code units that \<open>String.prototype.trim\<close> strips: the
  ECMAScript WhiteSpace and LineTerminator productions (all of them lie in the basic
  multilingual plane, so each is one code unit).
\<close>

definition is_ws :: "16 word \<Rightarrow> bool" where
  "is_ws c \<longleftrightarrow>
     c = 0x0009 \<or> c = 0x000A \<or> c = 0x000B \<or> c = 0x000C \<or> c = 0x000D \<or> c = 0x0020 \<or>
     c = 0x00A0 \<or> c = 0x1680 \<or> (0x2000 \<le> c \<and> c \<le> 0x200A) \<or> c = 0x2028 \<or>
     c = 0x2029 \<or> c = 0x202F \<or> c = 0x205F \<or> c = 0x3000 \<or> c = 0xFEFF"

definition trim :: "jsstring \<Rightarrow> jsstring" where
  "trim s = rev (dropWhile is_ws (rev (dropWhile is_ws s)))"

text \<open>
  A JavaScript number: a finite double (its exact value, the two zeros identified) or
  one of the three special values.  No arithmetic on numbers is modelled; the code below
  only stores them and tests them for truthiness.
\<close>

datatype js_number = Num rat | NaN | PosInf | NegInf

text \<open>
  A value produced by \<open>JSON.parse\<close>.  An object is the list of its own properties, in
  the order \<open>{...obj}\<close> enumerates them.
\<close>

datatype json =
    JNull
  | JBool bool
  | JNum js_number
  | JStr jsstring
  | JArr "json list"
  | JObj "(jsstring \<times> json) list"

text \<open>
  What a \<open>throw\<close> carries: an \<open>Error\<close> instance with its message (this includes
  \<open>TypeError\<close> and \<open>SyntaxError\<close>), or any other value.
\<close>

datatype thrown = JsError jsstring | NonError

text \<open>
  The parts of the JavaScript engine that the program calls and that are taken as given:
  \<open>JSON.parse\<close> (which throws a \<open>SyntaxError\<close> with some message or returns the
  value), the message of the \<open>TypeError\<close> raised on reading a property of \<open>null\<close>
  or \<open>undefined\<close>, and the string conversion used in template literals (\<open>None\<close> is
  \<open>undefined\<close>).
\<close>

record platform =
  JSON_parse :: "jsstring \<Rightarrow> jsstring + json"
  type_error_message :: jsstring
  ToString :: "json option \<Rightarrow> jsstring"


text \<open>
  \<open>v.key\<close> for a parsed value other than \<open>null\<close> and a key that is neither
  \<open>length\<close>, an index, nor defined on a built-in prototype (here \<open>recipes\<close>,
  \<open>recipeName\<close> and \<open>imageUrl\<close>): only an object can have it.
\<close>

fun get_prop :: "json \<Rightarrow> jsstring \<Rightarrow> json option" where
  "get_prop (JObj kvs) k = map_of kvs k"
| "get_prop v k = None"

fun decimal :: "nat \<Rightarrow> jsstring" where
  "decimal n = (if n < 10 then [of_nat (48 + n)] else decimal (n div 10) @ [of_nat (48 + n mod 10)])"



section \<open>Data model\<close>

datatype language = En | Fr | Ar

datatype cook_mode = Standard | Thermomix

record ingredient =
  name :: jsstring
  quantity :: js_number
  unit :: jsstring

record nutrition =
  calories :: jsstring
  protein :: jsstring
  carbs :: jsstring
  fat :: jsstring

record recipe =
  recipeName :: jsstring
  description :: jsstring
  servings :: js_number
  cookingTime :: jsstring
  nutrition :: nutrition
  rating :: js_number
  ingredients :: "ingredient list"
  standardInstructions :: "jsstring list"
  thermomixInstructions :: "jsstring list"
  imageUrl :: jsstring

text \<open>A typed recipe as the JavaScript object it is at run time.\<close>

definition ingredient_json :: "ingredient \<Rightarrow> json" where
  "ingredient_json g =
     JObj [(ascii ''name'', JStr (name g)), (ascii ''quantity'', JNum (quantity g)),
           (ascii ''unit'', JStr (unit g))]"

definition nutrition_json :: "nutrition \<Rightarrow> json" where
  "nutrition_json n =
     JObj [(ascii ''calories'', JStr (calories n)), (ascii ''protein'', JStr (protein n)),
           (ascii ''carbs'', JStr (carbs n)), (ascii ''fat'', JStr (fat n))]"

definition recipe_json :: "recipe \<Rightarrow> json" where
  "recipe_json r =
     JObj [(ascii ''recipeName'', JStr (recipeName r)),
           (ascii ''description'', JStr (description r)),
           (ascii ''servings'', JNum (servings r)),
           (ascii ''cookingTime'', JStr (cookingTime r)),
           (ascii ''nutrition'', nutrition_json (nutrition r)),
           (ascii ''rating'', JNum (rating r)),
           (ascii ''ingredients'', JArr (map ingredient_json (ingredients r))),
           (ascii ''standardInstructions'', JArr (map JStr (standardInstructions r))),
           (ascii ''thermomixInstructions'', JArr (map JStr (thermomixInstructions r))),
           (ascii ''imageUrl'', JStr (imageUrl r))]"

section \<open>Favorites (root controller)\<close>

text \<open>
  \<^verbatim>\<open>prev.includes(recipeName) ? prev.filter(name => name !== recipeName)
                             : [...prev, recipeName]\<close>
\<close>

definition toggleFavorite :: "jsstring \<Rightarrow> jsstring list \<Rightarrow> jsstring list" where
  "toggleFavorite recipe_name prev =
     (if recipe_name \<in> set prev then filter (\<lambda>n. n \<noteq> recipe_name) prev
      else prev @ [recipe_name])"

section \<open>Search bar\<close>

text \<open>
  \<^verbatim>\<open>if (term.trim()) { onSearch(term.trim()); }\<close>
  The result is the term dispatched upward, or \<open>None\<close> when nothing is dispatched
  (the empty string is the only falsy string).
\<close>

definition handleSubmit :: "jsstring \<Rightarrow> jsstring option" where
  "handleSubmit term = (if trim term \<noteq> [] then Some (trim term) else None)"

section \<open>Root application controller\<close>

datatype recipe_filter = All | Favorites

record app_state =
  language :: language
  recipes :: "recipe list"
  selectedRecipe :: "recipe option"
  isLoading :: bool
  error :: "jsstring option"
  favorites :: "jsstring list"
  filter_mode :: recipe_filter

text \<open>
  The state at start; \<open>saved\<close> is what the stored favorites parse to (the empty list
  when the key is missing or unreadable).
\<close>

definition initial_state :: "jsstring list \<Rightarrow> app_state" where
  "initial_state saved =
     \<lparr>language = En, recipes = [], selectedRecipe = None, isLoading = True, error = None,
      favorites = saved, filter_mode = All\<rparr>"

text \<open>
  The controller's \<open>fetchRecipes\<close> is asynchronous.  \<open>fetchRecipes_begin\<close> is what it
  does before it awaits the service:
  \<^verbatim>\<open>setIsLoading(true); setError(null); if (!searchTerm) { setSelectedRecipe(null); }\<close>
\<close>

definition fetchRecipes_begin :: "jsstring \<Rightarrow> app_state \<Rightarrow> app_state" where
  "fetchRecipes_begin searchTerm st =
     (let st1 = st\<lparr>isLoading := True, error := None\<rparr>
      in if searchTerm = [] then st1\<lparr>selectedRecipe := None\<rparr> else st1)"



definition handleSearch :: "jsstring \<Rightarrow> app_state \<Rightarrow> app_state" where
  "handleSearch searchTerm st = fetchRecipes_begin searchTerm (st\<lparr>filter_mode := All\<rparr>)"

definition handleLogoClick :: "app_state \<Rightarrow> app_state" where
  "handleLogoClick st = fetchRecipes_begin [] (st\<lparr>filter_mode := All, selectedRecipe := None\<rparr>)"

definition handleUpdateRecipe :: "recipe \<Rightarrow> app_state \<Rightarrow> app_state" where
  "handleUpdateRecipe updatedRecipe st =
     st\<lparr>selectedRecipe := Some updatedRecipe,
        recipes := map (\<lambda>r. if recipeName r = recipeName updatedRecipe then updatedRecipe else r)
                       (recipes st)\<rparr>"





text \<open>
  A submission in the search bar as the controller sees it: \<open>handleSubmit\<close> calls
  \<open>onSearch\<close>, which is \<open>handleSearch\<close>, or does nothing.
\<close>

definition submit_search :: "jsstring \<Rightarrow> app_state \<Rightarrow> app_state" where
  "submit_search term st = (case handleSubmit term of None \<Rightarrow> st | Some t \<Rightarrow> handleSearch t st)"

section \<open>Image generation (service)\<close>

text \<open>
  The provider's answer to one image request: the call rejects, or it resolves with a
  response in which \<open>response.candidates[0].content.parts\<close> is missing (reading it
  raises a \<open>TypeError\<close>) or is a list of parts, each with or without \<open>inlineData\<close>.
  The client constructor is taken to succeed; it sends nothing.
\<close>

record inline_data =
  mimeType :: jsstring
  data :: jsstring

datatype image_response =
    Rejected thrown
  | NoParts
  | Parts "inline_data option list"

text \<open>One pass through the body of the \<open>try\<close> block.\<close>

definition attempt :: "platform \<Rightarrow> image_response \<Rightarrow> thrown + jsstring" where
  "attempt P resp =
     (case resp of
        Rejected e \<Rightarrow> Inl e
      | NoParts \<Rightarrow> Inl (JsError (type_error_message P))
      | Parts ps \<Rightarrow>
          (case List.find (\<lambda>p. p \<noteq> None) ps of
             Some (Some d) \<Rightarrow> Inr (ascii ''data:'' @ mimeType d @ ascii '';base64,'' @ data d)
           | _ \<Rightarrow> Inl (JsError (ascii ''Image data not found in Gemini response.''))))"

definition failed_message :: "platform \<Rightarrow> json \<Rightarrow> nat \<Rightarrow> jsstring" where
  "failed_message P recipe retries =
     ascii ''Failed to generate image for '' @ ToString P (get_prop recipe (ascii ''recipeName''))
       @ ascii '' after '' @ decimal retries @ ascii '' attempts.''"

text \<open>
  The \<open>for\<close> loop, from the iteration \<open>i\<close> on.  \<open>api k\<close> is the provider's answer to
  the request of iteration \<open>k\<close>.  The second component of the result counts the
  requests sent.  (\<open>retries - 1\<close> is only read when \<open>i < retries\<close>, so it is not
  negative.)
\<close>

function retry_from :: "platform \<Rightarrow> (nat \<Rightarrow> image_response) \<Rightarrow> json \<Rightarrow> nat \<Rightarrow> nat \<Rightarrow> nat
    \<Rightarrow> (thrown + jsstring) \<times> nat" where
  "retry_from P api recipe retries i sent =
     (if i < retries then
        (case attempt P (api i) of
           Inr url \<Rightarrow> (Inr url, Suc sent)
         | Inl e \<Rightarrow>
             if i = retries - 1 then (Inl e, Suc sent)
             else retry_from P api recipe retries (Suc i) (Suc sent))
      else (Inl (JsError (failed_message P recipe retries)), sent))"
  by pat_completeness auto
termination
  by (relation "measure (\<lambda>(P, api, recipe, retries, i, sent). retries - i)") auto

declare retry_from.simps [simp del]

text \<open>
  Building the prompt reads \<open>recipe.recipeName\<close>, which throws when the recipe is
  \<open>null\<close>; the prompt's text does not otherwise decide anything here.
\<close>

definition generateImageForRecipeWithRetry ::
    "platform \<Rightarrow> (nat \<Rightarrow> image_response) \<Rightarrow> json \<Rightarrow> nat \<Rightarrow> (thrown + jsstring) \<times> nat" where
  "generateImageForRecipeWithRetry P api recipe retries =
     (if recipe = JNull then (Inl (JsError (type_error_message P)), 0)
      else retry_from P api recipe retries 0 0)"

text \<open>
  \<^verbatim>\<open>if (error instanceof Error) { throw error; } throw new Error(msg);\<close>
\<close>

definition rethrow :: "jsstring \<Rightarrow> thrown \<Rightarrow> thrown" where
  "rethrow msg e = (case e of JsError m \<Rightarrow> JsError m | NonError \<Rightarrow> JsError msg)"

definition regenerate_unknown_message :: jsstring where
  "regenerate_unknown_message = ascii ''An unknown error occurred while regenerating the image.''"


definition regenerateRecipeImage ::
    "platform \<Rightarrow> (nat \<Rightarrow> image_response) \<Rightarrow> json \<Rightarrow> (thrown + jsstring) \<times> nat" where
  "regenerateRecipeImage P api recipe =
     (case generateImageForRecipeWithRetry P api recipe 1 of
        (Inr url, sent) \<Rightarrow> (Inr url, sent)
      | (Inl e, sent) \<Rightarrow>
          (Inl (rethrow regenerate_unknown_message e), sent))"

section \<open>Recipe fetch (service)\<close>












section \<open>Recipe detail view\<close>

text \<open>
  \<open>handleRegenerateImage\<close> for the recipe shown, on the controller's state and the
  view's own \<open>imageError\<close> flag.  On success it calls \<open>onUpdateRecipe\<close>, which is
  \<open>handleUpdateRecipe\<close>, and the effect on \<open>recipe.imageUrl\<close> clears the flag when
  the reference changed; on failure it sets the flag.
\<close>

definition handleRegenerateImage ::
    "platform \<Rightarrow> (nat \<Rightarrow> image_response) \<Rightarrow> recipe \<Rightarrow> app_state \<times> bool \<Rightarrow> app_state \<times> bool" where
  "handleRegenerateImage P api recipe s =
     (case fst (regenerateRecipeImage P api (recipe_json recipe)) of
        Inr newImageUrl \<Rightarrow>
          (handleUpdateRecipe (recipe\<lparr>imageUrl := newImageUrl\<rparr>) (fst s),
           snd s \<and> newImageUrl = imageUrl recipe)
      | Inl e \<Rightarrow> (fst s, True))"

section \<open>The declared response schema\<close>









section \<open>Example values\<close>

definition soup :: recipe where
  "soup =
     \<lparr>recipeName = ascii ''Tomato Soup'', description = ascii ''Warm'',
      servings = Num 2, cookingTime = ascii ''30 minutes'',
      nutrition = \<lparr>calories = ascii ''200 kcal'', protein = ascii ''5 g'',
                   carbs = ascii ''30 g'', fat = ascii ''4 g''\<rparr>,
      rating = Num 4,
      ingredients = [\<lparr>name = ascii ''tomato'', quantity = Num 3, unit = ascii ''pieces''\<rparr>],
      standardInstructions = [ascii ''Boil''], thermomixInstructions = [ascii ''Mix''],
      imageUrl = []\<rparr>"

definition stew :: recipe where
  "stew = soup\<lparr>recipeName := ascii ''Beef Stew'', description := ascii ''Rich''\<rparr>"

definition other_soup :: recipe where
  "other_soup = soup\<lparr>description := ascii ''Cold'', imageUrl := ascii ''old''\<rparr>"

definition soup_and_stew :: app_state where
  "soup_and_stew =
     \<lparr>language = En, recipes = [soup, stew], selectedRecipe = Some soup, isLoading = False,
      error = None, favorites = [], filter_mode = All\<rparr>"

definition two_soups :: app_state where
  "two_soups = soup_and_stew\<lparr>recipes := [soup, other_soup]\<rparr>"

definition engine :: platform where
  "engine =
     \<lparr>JSON_parse = (\<lambda>text. Inl (ascii ''Unexpected token'')),
      type_error_message = ascii ''Cannot read properties'',
      ToString = (\<lambda>v. case v of Some (JStr s) \<Rightarrow> s | _ \<Rightarrow> ascii ''undefined'')\<rparr>"

definition png :: image_response where
  "png = Parts [None, Some \<lparr>mimeType = ascii ''image/png'', data = ascii ''QUJD''\<rparr>]"

definition png_url :: jsstring where
  "png_url = ascii ''data:image/png;base64,QUJD''"











text \<open>A provider that rejects the first request for an image and serves the later ones.\<close>

definition fail_then_serve :: "nat \<Rightarrow> image_response" where
  "fail_then_serve k = (if k = 0 then Rejected NonError else png)"

text \<open>A provider that serves every image request.\<close>

definition serve_png :: "nat \<Rightarrow> image_response" where
  "serve_png k = png"




section \<open>Properties of the favorites toggle\<close>

lemma toggleFavorite_absent: "n \<notin> set F \<Longrightarrow> toggleFavorite n (toggleFavorite n F) = F"
  by (auto simp: toggleFavorite_def filter_id_conv)

lemma toggleFavorite_present:
  "n \<in> set F \<Longrightarrow> toggleFavorite n (toggleFavorite n F) = filter (\<lambda>m. m \<noteq> n) F @ [n]"
  by (simp add: toggleFavorite_def)

text \<open>
  C2.  Toggling the same recipe name twice restores the original favorites set: for
  every favorites list \<open>F\<close> and every name \<open>n\<close>, the list after two toggles has the
  same members as \<open>F\<close>.  (When \<open>n\<close> was absent the list itself is \<open>F\<close> again; when it
  was present, \<open>n\<close> moves to the end, see the two lemmas above.)
\<close>

theorem toggleFavorite_twice_restores_set:
  "set (toggleFavorite n (toggleFavorite n F)) = set F"
  by (auto simp: toggleFavorite_def)

lemma toggleFavorite_keeps_distinct: "distinct F \<Longrightarrow> distinct (toggleFavorite n F)"
  by (simp add: toggleFavorite_def)

lemma toggles_keep_distinct:
  "distinct F \<Longrightarrow> distinct (foldl (\<lambda>G m. toggleFavorite m G) F ns)"
  by (induction ns arbitrary: F) (simp_all add: toggleFavorite_keeps_distinct)

text \<open>
  C9.  On a duplicate-free favorites list the toggle yields a duplicate-free list:
  when the name is present every occurrence of it is filtered out, and when it is absent
  it is appended once at the end.  So no sequence of toggles ever puts a name into the
  list twice.
\<close>

theorem toggleFavorite_distinct:
  assumes "distinct F"
  shows "distinct (toggleFavorite n F) \<and>
         (n \<in> set F \<longrightarrow> n \<notin> set (toggleFavorite n F) \<and>
                          toggleFavorite n F = filter (\<lambda>m. m \<noteq> n) F) \<and>
         (n \<notin> set F \<longrightarrow> toggleFavorite n F = F @ [n]) \<and>
         distinct (foldl (\<lambda>G m. toggleFavorite m G) F ns)"
  using assms toggles_keep_distinct [of F ns] by (simp add: toggleFavorite_def)

theorem toggleFavorite_distinct_witness:
  "distinct [[0x41], [0x42 :: 16 word]] \<and>
   distinct (toggleFavorite [0x41] [[0x41], [0x42]]) \<and>
   toggleFavorite [0x41] [[0x41], [0x42]] = [[0x42]] \<and>
   toggleFavorite [0x43] [[0x41], [0x42]] = [[0x41], [0x42], [0x43]]"
  using toggleFavorite_distinct [of "[[0x41], [0x42]]" "[0x41]"]
        toggleFavorite_distinct [of "[[0x41], [0x42]]" "[0x43]"]
  by simp

section \<open>Properties of the search bar\<close>

lemma dropWhile_ws_all: "(\<forall>x\<in>set (dropWhile is_ws s). is_ws x) \<longleftrightarrow> (\<forall>x\<in>set s. is_ws x)"
proof
  assume a: "\<forall>x\<in>set (dropWhile is_ws s). is_ws x"
  show "\<forall>x\<in>set s. is_ws x"
  proof (rule ccontr)
    assume "\<not> (\<forall>x\<in>set s. is_ws x)"
    then have ne: "dropWhile is_ws s \<noteq> []" by (simp add: dropWhile_eq_Nil_conv)
    then have "\<not> is_ws (hd (dropWhile is_ws s))" by (rule hd_dropWhile)
    moreover have "hd (dropWhile is_ws s) \<in> set (dropWhile is_ws s)" using ne by (rule hd_in_set)
    ultimately show False using a by blast
  qed
next
  assume "\<forall>x\<in>set s. is_ws x"
  then show "\<forall>x\<in>set (dropWhile is_ws s). is_ws x" by (blast dest: set_dropWhileD)
qed

lemma trim_Nil_iff: "trim s = [] \<longleftrightarrow> list_all is_ws s"
  by (simp add: trim_def dropWhile_eq_Nil_conv list_all_iff dropWhile_ws_all)

lemma trim_hd: "trim s \<noteq> [] \<Longrightarrow> \<not> is_ws (hd (trim s))"
proof -
  assume ne: "trim s \<noteq> []"
  let ?d = "dropWhile is_ws s"
  let ?e = "dropWhile is_ws (rev ?d)"
  from ne have e: "?e \<noteq> []" unfolding trim_def by simp
  have d: "?d \<noteq> []"
    using ne by (simp add: trim_Nil_iff dropWhile_eq_Nil_conv list_all_iff)
  have "rev ?d = takeWhile is_ws (rev ?d) @ ?e" by simp
  then have "last (rev ?d) = last ?e" using e by (metis last_appendR)
  then have "hd (trim s) = hd ?d" using e d unfolding trim_def by (simp add: hd_rev last_rev)
  then show ?thesis using hd_dropWhile [OF d] by simp
qed

lemma trim_last: "trim s \<noteq> [] \<Longrightarrow> \<not> is_ws (last (trim s))"
  unfolding trim_def by (simp add: last_rev hd_dropWhile del: dropWhile_eq_Nil_conv)

lemma trim_decompose:
  "s = takeWhile is_ws s @ trim s @ rev (takeWhile is_ws (rev (dropWhile is_ws s)))"
proof -
  let ?d = "dropWhile is_ws s"
  have "rev ?d = takeWhile is_ws (rev ?d) @ dropWhile is_ws (rev ?d)" by simp
  then have "?d = rev (dropWhile is_ws (rev ?d)) @ rev (takeWhile is_ws (rev ?d))"
    by (metis rev_append rev_rev_ident)
  then have "?d = trim s @ rev (takeWhile is_ws (rev ?d))" by (simp add: trim_def)
  moreover have "s = takeWhile is_ws s @ ?d" by simp
  ultimately show ?thesis by metis
qed

lemma trim_affixes:
  "\<exists>pre suf. list_all is_ws pre \<and> list_all is_ws suf \<and> s = pre @ trim s @ suf"
proof -
  have "list_all is_ws (takeWhile is_ws s)"
    by (auto simp: list_all_iff dest: set_takeWhileD)
  moreover have "list_all is_ws (rev (takeWhile is_ws (rev (dropWhile is_ws s))))"
    by (auto simp: list_all_iff dest: set_takeWhileD)
  ultimately show ?thesis using trim_decompose [of s] by blast
qed

text \<open>
  C10.  The search bar dispatches a search exactly when the entered text has a code
  unit that is not whitespace, and what it dispatches is the text without its leading
  and trailing whitespace: the text is a run of whitespace, the dispatched term, and a
  run of whitespace, and the term neither starts nor ends with whitespace.  An empty or
  whitespace-only submission dispatches nothing and leaves the controller as it was, so
  no fetch starts.
\<close>

theorem handleSubmit_dispatch:
  "handleSubmit term = (if list_all is_ws term then None else Some (trim term)) \<and>
   (\<exists>pre suf. list_all is_ws pre \<and> list_all is_ws suf \<and> term = pre @ trim term @ suf) \<and>
   (\<not> list_all is_ws term \<longrightarrow> \<not> is_ws (hd (trim term)) \<and> \<not> is_ws (last (trim term))) \<and>
   submit_search term st = (if list_all is_ws term then st else handleSearch (trim term) st)"
proof -
  have 1: "handleSubmit term = (if list_all is_ws term then None else Some (trim term))"
    by (simp add: handleSubmit_def trim_Nil_iff)
  have 2: "\<not> list_all is_ws term \<longrightarrow> \<not> is_ws (hd (trim term)) \<and> \<not> is_ws (last (trim term))"
    using trim_hd [of "term"] trim_last [of "term"] by (simp add: trim_Nil_iff)
  have 3: "submit_search term st = (if list_all is_ws term then st else handleSearch (trim term) st)"
    by (simp add: submit_search_def 1)
  show ?thesis using 1 2 3 trim_affixes [of "term"] by blast
qed

theorem handleSubmit_dispatch_witness:
  "\<not> list_all is_ws [0x20, 0x61, 0x20] \<and>
   handleSubmit [0x20, 0x61, 0x20] = Some [0x61] \<and>
   \<not> is_ws (hd (trim [0x20, 0x61, 0x20])) \<and>
   list_all is_ws [0x20, 0x09] \<and>
   handleSubmit [0x20, 0x09] = None \<and>
   submit_search [0x20, 0x09] (initial_state []) = initial_state []"
  using handleSubmit_dispatch [of "[0x20, 0x61, 0x20]" "initial_state []"]
        handleSubmit_dispatch [of "[0x20, 0x09]" "initial_state []"]
  by (simp add: is_ws_def trim_def)

section \<open>Properties of the retry loop\<close>




section \<open>Properties of the controller\<close>





section \<open>Properties of the regeneration helper\<close>

lemma retry_once:
  "retry_from P api recipe (Suc 0) 0 0 = (attempt P (api 0), Suc 0)"
  by (subst retry_from.simps) (simp split: sum.splits)

lemma recipe_json_not_null: "recipe_json r \<noteq> JNull"
  by (simp add: recipe_json_def)

lemma regenerateRecipeImage_eq:
  "recipe \<noteq> JNull \<Longrightarrow>
   regenerateRecipeImage P api recipe =
     (case attempt P (api 0) of
        Inr url \<Rightarrow> Inr url
      | Inl e \<Rightarrow> Inl (rethrow regenerate_unknown_message e), 1)"
  by (simp add: regenerateRecipeImage_def generateImageForRecipeWithRetry_def retry_once
      split: sum.splits)

text \<open>
  C7.  The regeneration helper sends exactly one image request for the recipe, whatever
  the provider answers: its result is the image reference of that one attempt, or an
  \<open>Error\<close> raised to the caller.  The recipe is not changed: when the attempt fails
  the detail view leaves the controller's state, and with it the recipe, as it was.
\<close>

theorem regenerateRecipeImage_single_attempt:
  "snd (regenerateRecipeImage P api (recipe_json r)) = 1 \<and>
   fst (regenerateRecipeImage P api (recipe_json r)) =
     (case attempt P (api 0) of
        Inr url \<Rightarrow> Inr url
      | Inl e \<Rightarrow> Inl (rethrow regenerate_unknown_message e)) \<and>
   (\<forall>e. attempt P (api 0) = Inl e \<longrightarrow>
        (\<exists>m. fst (regenerateRecipeImage P api (recipe_json r)) = Inl (JsError m)) \<and>
        fst (handleRegenerateImage P api r s) = fst s)"
  by (auto simp: regenerateRecipeImage_eq recipe_json_not_null handleRegenerateImage_def rethrow_def
      split: thrown.splits)

theorem regenerateRecipeImage_single_attempt_witness:
  "attempt engine (Rejected NonError) = Inl NonError \<and>
   regenerateRecipeImage engine fail_then_serve (recipe_json soup) =
     (Inl (JsError regenerate_unknown_message), 1) \<and>
   fst (handleRegenerateImage engine fail_then_serve soup
          (initial_state [], False)) = initial_state []"
  using regenerateRecipeImage_single_attempt
    [of engine fail_then_serve soup "(initial_state [], False)"]
  by (simp add: attempt_def rethrow_def prod_eq_iff fail_then_serve_def)

section \<open>Properties of the image update\<close>

lemma handleUpdateRecipe_fields:
  "selectedRecipe (handleUpdateRecipe u st) = Some u \<and>
   recipes (handleUpdateRecipe u st) =
     map (\<lambda>r. if recipeName r = recipeName u then u else r) (recipes st) \<and>
   language (handleUpdateRecipe u st) = language st \<and>
   isLoading (handleUpdateRecipe u st) = isLoading st \<and>
   error (handleUpdateRecipe u st) = error st \<and>
   favorites (handleUpdateRecipe u st) = favorites st \<and>
   filter_mode (handleUpdateRecipe u st) = filter_mode st"
  by (simp add: handleUpdateRecipe_def)

lemma map_replace_unique:
  assumes "distinct (map f xs)" and "i < length xs" and "f (xs ! i) = f u"
  shows "map (\<lambda>r. if f r = f u then u else r) xs = xs[i := u]"
proof (rule nth_equalityI)
  show "length (map (\<lambda>r. if f r = f u then u else r) xs) = length (xs[i := u])" by simp
next
  fix j assume "j < length (map (\<lambda>r. if f r = f u then u else r) xs)"
  then have j: "j < length xs" by simp
  show "map (\<lambda>r. if f r = f u then u else r) xs ! j = xs[i := u] ! j"
  proof (cases "j = i")
    case True
    with assms show ?thesis by simp
  next
    case False
    with assms j have "f (xs ! j) \<noteq> f (xs ! i)"
      by (metis distinct_conv_nth length_map nth_map)
    with assms j False show ?thesis by simp
  qed
qed

text \<open>
  C5 (as amended).  After a successful regeneration for the recipe on display, the
  selection is that recipe with only its image reference replaced; every list entry with
  another name is unchanged and every entry with the same name becomes the new
  selection; the rest of the controller's state is unchanged.  When the names in the list
  are distinct and the recipe on display is the entry at some position, the list changes
  at that position only, and only in the image reference.
\<close>

theorem handleRegenerateImage_success:
  assumes ok: "fst (regenerateRecipeImage P api (recipe_json recipe)) = Inr url"
  shows "selectedRecipe (fst (handleRegenerateImage P api recipe s)) = Some (recipe\<lparr>imageUrl := url\<rparr>) \<and>
         length (recipes (fst (handleRegenerateImage P api recipe s))) = length (recipes (fst s)) \<and>
         (\<forall>i < length (recipes (fst s)).
            recipes (fst (handleRegenerateImage P api recipe s)) ! i =
              (if recipeName (recipes (fst s) ! i) = recipeName recipe
               then recipe\<lparr>imageUrl := url\<rparr> else recipes (fst s) ! i)) \<and>
         (\<forall>i < length (recipes (fst s)).
            distinct (map recipeName (recipes (fst s))) \<and> recipes (fst s) ! i = recipe \<longrightarrow>
            recipes (fst (handleRegenerateImage P api recipe s)) =
              (recipes (fst s))[i := (recipes (fst s) ! i)\<lparr>imageUrl := url\<rparr>]) \<and>
         language (fst (handleRegenerateImage P api recipe s)) = language (fst s) \<and>
         isLoading (fst (handleRegenerateImage P api recipe s)) = isLoading (fst s) \<and>
         error (fst (handleRegenerateImage P api recipe s)) = error (fst s) \<and>
         favorites (fst (handleRegenerateImage P api recipe s)) = favorites (fst s) \<and>
         filter_mode (fst (handleRegenerateImage P api recipe s)) = filter_mode (fst s)"
proof -
  let ?u = "recipe\<lparr>imageUrl := url\<rparr>"
  have eq: "fst (handleRegenerateImage P api recipe s) = handleUpdateRecipe ?u (fst s)"
    using ok by (simp add: handleRegenerateImage_def)
  have name: "recipeName ?u = recipeName recipe" by simp
  have uniq: "\<forall>i < length (recipes (fst s)).
            distinct (map recipeName (recipes (fst s))) \<and> recipes (fst s) ! i = recipe \<longrightarrow>
            map (\<lambda>r. if recipeName r = recipeName ?u then ?u else r) (recipes (fst s)) =
              (recipes (fst s))[i := (recipes (fst s) ! i)\<lparr>imageUrl := url\<rparr>]"
    using map_replace_unique [of recipeName "recipes (fst s)" _ ?u] by auto
  show ?thesis
    unfolding eq using uniq by (simp add: handleUpdateRecipe_fields)
qed


lemma regenerate_png: "fst (regenerateRecipeImage engine serve_png (recipe_json r)) = Inr png_url"
  by (simp add: regenerateRecipeImage_eq recipe_json_not_null attempt_def serve_png_def png_def
      png_url_def ascii_def)

theorem handleRegenerateImage_success_witness:
  "fst (regenerateRecipeImage engine serve_png (recipe_json soup)) = Inr png_url \<and>
   distinct (map recipeName (recipes soup_and_stew)) \<and>
   recipes soup_and_stew ! 0 = soup \<and>
   selectedRecipe (fst (handleRegenerateImage engine serve_png soup (soup_and_stew, False)))
     = Some (soup\<lparr>imageUrl := png_url\<rparr>) \<and>
   recipes (fst (handleRegenerateImage engine serve_png soup (soup_and_stew, False)))
     = [soup\<lparr>imageUrl := png_url\<rparr>, stew]"
proof -
  have ok: "fst (regenerateRecipeImage engine serve_png (recipe_json soup)) = Inr png_url"
    by (rule regenerate_png)
  have d: "distinct (map recipeName (recipes soup_and_stew))"
    by (simp add: soup_and_stew_def soup_def stew_def ascii_def)
  have z: "recipes soup_and_stew ! 0 = soup \<and> 0 < length (recipes soup_and_stew)"
    by (simp add: soup_and_stew_def)
  from handleRegenerateImage_success [OF ok, of "(soup_and_stew, False)"] d z
  have "recipes (fst (handleRegenerateImage engine serve_png soup (soup_and_stew, False)))
     = (recipes soup_and_stew)[0 := (recipes soup_and_stew ! 0)\<lparr>imageUrl := png_url\<rparr>]"
    by (metis fst_conv)
  then have "recipes (fst (handleRegenerateImage engine serve_png soup (soup_and_stew, False)))
     = [soup\<lparr>imageUrl := png_url\<rparr>, stew]"
    by (simp add: soup_and_stew_def)
  with ok d z handleRegenerateImage_success [OF ok, of "(soup_and_stew, False)"]
  show ?thesis by simp
qed

text \<open>
  C5 as stated fails when two entries share a name: the entry that is not on display is
  overwritten, description included.
\<close>

theorem handleRegenerateImage_same_name_counterexample:
  "fst (regenerateRecipeImage engine serve_png (recipe_json soup)) = Inr png_url \<and>
   selectedRecipe two_soups = Some soup \<and>
   recipes two_soups ! 0 = soup \<and>
   recipes two_soups ! 1 = other_soup \<and>
   description (recipes two_soups ! 1) = ascii ''Cold'' \<and>
   description (recipes (fst (handleRegenerateImage engine serve_png soup (two_soups, False))) ! 1)
     = ascii ''Warm'' \<and>
   ascii ''Warm'' \<noteq> ascii ''Cold''"
  by (simp add: regenerate_png handleRegenerateImage_def handleUpdateRecipe_def two_soups_def
      soup_and_stew_def other_soup_def soup_def ascii_def)

section \<open>Properties of the batch fetch\<close>












section \<open>Properties of the response check\<close>








section \<open>Properties of a failed fetch\<close>









end
